theory Spec2Isabelle
  imports Main
begin

section \<open>Values shared by the host and the script engine\<close>

text \<open>
  The host hands Go values of type \<^verbatim>\<open>interface{}\<close> to the script engine and gets
  engine values back. One datatype covers both sides: nil/null, booleans, numbers,
  strings, arrays and maps (a Go \<^verbatim>\<open>map[string]interface{}\<close> or a script object, as an
  association list in the order of the source's literal; the order carries no
  meaning), the script's \<^verbatim>\<open>undefined\<close>, and the one pointer value that
  \<^verbatim>\<open>Send\<close> creates: \<^verbatim>\<open>&req.ID\<close>, the address of the \<^verbatim>\<open>ID\<close> field of the loop
  variable \<^verbatim>\<open>req\<close> (jail.go line 196).
\<close>

datatype gval =
    GUndefined
  | GNil
  | GBool bool
  | GInt int
  | GStr string
  | GList "gval list"
  | GMap "(string \<times> gval) list"
  | AddrReqID


text \<open>
  \<^verbatim>\<open>common.RPCCall\<close>: the type is declared outside the files at hand; its fields are
  the ones \<^verbatim>\<open>Send\<close> uses (\<^verbatim>\<open>req.ID\<close>, \<^verbatim>\<open>req.Method\<close>) and the ones the
  specification lists (method, params, id). The identifier is any value (string, number
  or null).
\<close>

record RPCCall =
  ID :: gval
  Method :: string
  Params :: "gval list"

section \<open>Result and error envelopes (jail.go lines 254-279)\<close>

text \<open>
  \<^verbatim>\<open>json.Marshal\<close> of a Go string, byte by byte: the quote and the backslash get a
  backslash, newline, carriage return and tab their short escapes, the other control
  bytes and the HTML-sensitive \<^verbatim>\<open><\<close>, \<^verbatim>\<open>>\<close>, \<^verbatim>\<open>&\<close> become \<^verbatim>\<open>\u00XX\<close>, every other
  byte below 0x80 is copied (the encoder of Go before 1.22, with its HTML escaping on).
  Bytes from 0x80 on are copied as well, which is what the encoder does for well-formed
  UTF-8 other than U+2028 and U+2029.
\<close>

definition hex_digit :: "nat \<Rightarrow> char" where
  "hex_digit n = ''0123456789abcdef'' ! (n mod 16)"

definition json_escape_byte :: "char \<Rightarrow> string" where
  \<open>json_escape_byte c =
     (if c = CHR 0x22 then [CHR 0x5C, CHR 0x22]
      else if c = CHR 0x5C then [CHR 0x5C, CHR 0x5C]
      else if c = CHR 0x0A then [CHR 0x5C, CHR ''n'']
      else if c = CHR 0x0D then [CHR 0x5C, CHR ''r'']
      else if c = CHR 0x09 then [CHR 0x5C, CHR ''t'']
      else if (of_char c :: nat) < 32 \<or> c = CHR ''<'' \<or> c = CHR ''>'' \<or> c = CHR ''&''
        then [CHR 0x5C, CHR ''u'', CHR ''0'', CHR ''0'',
              hex_digit ((of_char c :: nat) div 16), hex_digit (of_char c)]
      else [c])\<close>

definition json_string :: "string \<Rightarrow> string" where
  \<open>json_string s = [CHR 0x22] @ concat (map json_escape_byte s) @ [CHR 0x22]\<close>

text \<open>
  \<^verbatim>\<open>makeError\<close> marshals the struct \<^verbatim>\<open>JSONError{Error: error}\<close>, whose only field is
  tagged \<^verbatim>\<open>json:"error"\<close>.
\<close>

definition makeError :: "string \<Rightarrow> string" where
  \<open>makeError error = ''{"error":'' @ json_string error @ ''}''\<close>

text \<open>
  \<^verbatim>\<open>makeResult(res string, err error)\<close>: a Go \<^verbatim>\<open>error\<close> is \<^verbatim>\<open>nil\<close> (\<open>None\<close>) or
  carries the text its \<^verbatim>\<open>Error()\<close> returns. The format is \<^verbatim>\<open>{"result": %s}\<close>, with a
  space after the colon.
\<close>

definition makeResult :: "string \<Rightarrow> string option \<Rightarrow> string" where
  \<open>makeResult res err =
     (case err of
        Some e \<Rightarrow> makeError e
      | None \<Rightarrow> ''{"result": '' @ (if ''undefined'' = res then ''null'' else res) @ ''}'')\<close>

section \<open>The call dispatcher (jail.go lines 154-252)\<close>

subsection \<open>What \<^verbatim>\<open>Send\<close> consumes\<close>

text \<open>
  \<^verbatim>\<open>jail.policy.Execute(req, vm)\<close> returns a response map or an error. \<^verbatim>\<open>Send\<close> tells
  two kinds of error apart by their Go type: \<^verbatim>\<open>common.StopRPCCallError\<close> and every
  other one. Both carry the text their \<^verbatim>\<open>Error()\<close> returns. The policy performs backend
  operations, so it threads a state of its own (\<open>'p\<close>).
\<close>

datatype exec_error = StopRPCCallError string | OtherError string

fun Error :: "exec_error \<Rightarrow> string" where
  "Error (StopRPCCallError m) = m"
| "Error (OtherError m) = m"

type_synonym 'p policy = "RPCCall \<Rightarrow> 'p \<Rightarrow> (exec_error + (string \<times> gval) list) \<times> 'p"

text \<open>
  The collaborators of \<^verbatim>\<open>Send\<close> that live outside jail.go, as parameters:
  the engine's \<^verbatim>\<open>JSON.stringify\<close> on the script's argument (an error text or the
  serialization), \<^verbatim>\<open>json.Unmarshal\<close> into \<^verbatim>\<open>[]common.RPCCall\<close> and into one
  \<^verbatim>\<open>common.RPCCall\<close> (an error text or the decoded calls), the policy, and the three
  operations on the engine's array, given by its elements: \<^verbatim>\<open>vm.Call("new Array", nil)\<close>,
  \<^verbatim>\<open>resps.Object().Call("push", res)\<close> and \<^verbatim>\<open>resps.Object().Get("0")\<close>. These run in the
  cell's engine, where a script may have replaced \<^verbatim>\<open>Array\<close> or its \<^verbatim>\<open>push\<close>, so each
  yields an error text or its result.
\<close>

record ('a, 'p) env =
  JSON_stringify :: "'a \<Rightarrow> string + string"
  Unmarshal_calls :: "string \<Rightarrow> string + RPCCall list"
  Unmarshal_call :: "string \<Rightarrow> string + RPCCall"
  Execute :: "'p policy"
  new_Array :: "string + gval list"
  Array_push :: "gval list \<Rightarrow> gval \<Rightarrow> string + gval list"
  Array_Get :: "gval list \<Rightarrow> string \<Rightarrow> string + gval"

text \<open>
  An engine whose array is the language's own: a new array is empty, \<^verbatim>\<open>push\<close> appends,
  and the property \<^verbatim>\<open>0\<close> is the first element, or \<^verbatim>\<open>undefined\<close> on an empty array.
\<close>

definition standard_Array :: "('a, 'p) env \<Rightarrow> bool" where
  "standard_Array E \<longleftrightarrow>
     new_Array E = Inr []
     \<and> (\<forall>resps v. Array_push E resps v = Inr (resps @ [v]))
     \<and> (\<forall>resps. Array_Get E resps ''0'' = Inr (case resps of [] \<Rightarrow> GUndefined | v # _ \<Rightarrow> v))"

text \<open>
  What one run of \<^verbatim>\<open>Send\<close> changes: the policy's state, the log, and the loop
  variable \<^verbatim>\<open>req\<close>. Go (every version before 1.22, the language of this code base)
  declares \<^verbatim>\<open>req\<close> once for the whole \<^verbatim>\<open>for ... range\<close> statement and assigns the
  next element to it at each iteration, so \<^verbatim>\<open>&req.ID\<close> is the same address in every
  iteration. Before the first iteration the variable holds nothing (\<open>None\<close>).
\<close>

datatype log_entry = Info string string string

record 'p send_state =
  policy_state :: 'p
  req :: "RPCCall option"
  logged :: "log_entry list"

text \<open>
  Reading a value through its pointers, as \<^verbatim>\<open>json.Marshal\<close> does when it serializes
  and as the engine does when the script reads a field of a Go map it was handed: the
  address \<^verbatim>\<open>&req.ID\<close> yields what the loop variable holds at that moment.
\<close>

fun deref :: "RPCCall option \<Rightarrow> gval \<Rightarrow> gval" where
  "deref r AddrReqID = (case r of Some c \<Rightarrow> ID c | None \<Rightarrow> GNil)"
| "deref r (GList xs) = GList (map (deref r) xs)"
| "deref r (GMap kvs) = GMap (map (map_prod (\<lambda>k. k) (deref r)) kvs)"
| "deref r GUndefined = GUndefined"
| "deref r GNil = GNil"
| "deref r (GBool b) = GBool b"
| "deref r (GInt i) = GInt i"
| "deref r (GStr s) = GStr s"

subsection \<open>Responses\<close>

definition newErrorResponse :: "string \<Rightarrow> gval \<Rightarrow> (string \<times> gval) list" where
  "newErrorResponse msg ident =
     [(''jsonrpc'', GStr ''2.0''),
      (''id'', ident),
      (''error'', GMap [(''code'', GInt (- 32603)), (''message'', GStr msg)])]"

text \<open>
  \<^verbatim>\<open>newErrorResponseOtto\<close> marshals the map at once and has the engine evaluate the
  text: the value it returns is the map as read at that moment. Both steps drop their
  errors.
\<close>

definition newErrorResponseOtto :: "'p send_state \<Rightarrow> string \<Rightarrow> gval \<Rightarrow> gval" where
  "newErrorResponseOtto st msg ident = deref (req st) (GMap (newErrorResponse msg ident))"

subsection \<open>\<^verbatim>\<open>Send\<close>\<close>

text \<open>
  A call of \<^verbatim>\<open>Send\<close> ends in one of three ways: it returns an engine value, it throws
  a script exception (\<^verbatim>\<open>throwJSException\<close> panics on an engine value, which the engine
  turns into a script error), or the Go runtime panics.
\<close>

datatype go_panic = IndexOutOfRange | NilDereference

datatype outcome = Returned gval | Thrown string | RuntimePanic go_panic

text \<open>
  The loop of lines 187-204 over the remaining calls, with the elements of the array
  \<^verbatim>\<open>resps\<close> pushed so far. An iteration either leaves \<^verbatim>\<open>Send\<close> (\<open>Inl\<close>: the return
  at a \<^verbatim>\<open>StopRPCCallError\<close>, or the exception when \<^verbatim>\<open>push\<close> fails) or goes on with
  one more element; the loop ends with \<open>Inr\<close> and the array. A response map is pushed as
  it is: the engine is handed the Go map itself, not a copy, so the error response keeps
  the pointer \<^verbatim>\<open>&req.ID\<close>.
\<close>

fun send_loop ::
  "('a, 'p) env \<Rightarrow> RPCCall list \<Rightarrow> gval list \<Rightarrow> 'p send_state \<Rightarrow> (outcome + gval list) \<times> 'p send_state"
where
  "send_loop E [] resps st = (Inr resps, st)"
| "send_loop E (r # rs) resps st =
     (let st1 = st\<lparr>req := Some r,
                    logged := logged st @ [Info ''execute request'' ''method'' (Method r)]\<rparr>;
          (res, p') = Execute E r (policy_state st1);
          st2 = st1\<lparr>policy_state := p'\<rparr>
      in case res of
           Inr resp \<Rightarrow>
             (case Array_push E resps (GMap resp) of
                Inl err \<Rightarrow> (Inl (Thrown (''can't push result: '' @ err)), st2)
              | Inr resps' \<Rightarrow> send_loop E rs resps' st2)
         | Inl err \<Rightarrow>
             (let st3 = st2\<lparr>logged := logged st2 @ [Info ''request errored'' ''error'' (Error err)]\<rparr>
              in case err of
                   StopRPCCallError m \<Rightarrow>
                     (Inl (Returned (newErrorResponseOtto st3 (Error err) GNil)), st3)
                 | OtherError m \<Rightarrow>
                     (case Array_push E resps (GMap (newErrorResponse (Error err) AddrReqID)) of
                        Inl err' \<Rightarrow> (Inl (Thrown (''can't push result: '' @ err')), st3)
                      | Inr resps' \<Rightarrow> send_loop E rs resps' st3)))"

definition bool_text :: "bool \<Rightarrow> string" where
  "bool_text b = (if b then ''true'' else ''false'')"

text \<open>
  \<^verbatim>\<open>Send\<close>. The index \<^verbatim>\<open>rawReq[0]\<close> is out of range on the empty serialization. The
  format verbs \<^verbatim>\<open>%v\<close> of the decoding error print the raw text and \<^verbatim>\<open>true\<close> or
  \<^verbatim>\<open>false\<close>.
\<close>

definition Send :: "('a, 'p) env \<Rightarrow> 'a \<Rightarrow> 'p send_state \<Rightarrow> outcome \<times> 'p send_state" where
  \<open>Send E arg st =
     (case JSON_stringify E arg of
        Inl err \<Rightarrow> (Thrown err, st)
      | Inr rawReq \<Rightarrow>
          (case rawReq of
             [] \<Rightarrow> (RuntimePanic IndexOutOfRange, st)
           | b # _ \<Rightarrow>
               (let batch = (b = CHR ''['');
                    decoded = (if batch then Unmarshal_calls E rawReq
                               else map_sum (\<lambda>e. e) (\<lambda>c. [c]) (Unmarshal_call E rawReq))
                in case decoded of
                     Inl err \<Rightarrow>
                       (Thrown (''can't unmarshal '' @ rawReq @ '' (batch='' @ bool_text batch
                                @ ''): '' @ err), st)
                   | Inr reqs \<Rightarrow>
                       (case new_Array E of
                          Inl err \<Rightarrow> (Thrown (''can't create Array: '' @ err), st)
                        | Inr resps0 \<Rightarrow>
                            (case send_loop E reqs resps0 st of
                               (Inl out, st') \<Rightarrow> (out, st')
                             | (Inr resps, st') \<Rightarrow>
                                 if batch then (Returned (GList resps), st')
                                 else (case Array_Get E resps ''0'' of
                                         Inl err \<Rightarrow> (Thrown err, st')
                                       | Inr v \<Rightarrow> (Returned v, st')))))))\<close>

text \<open>
  What the script finds in the value \<^verbatim>\<open>Send\<close> returned, once \<^verbatim>\<open>Send\<close> is over: every
  pointer read against the final state.
\<close>

definition observed :: "outcome \<times> 'p send_state \<Rightarrow> outcome" where
  "observed r =
     (case fst r of
        Returned v \<Rightarrow> Returned (deref (req (snd r)) v)
      | Thrown m \<Rightarrow> Thrown m
      | RuntimePanic p \<Rightarrow> RuntimePanic p)"

section \<open>The session registry and session initialization (jail.go lines 24-140)\<close>

text \<open>
  \<^verbatim>\<open>Jail.cells\<close> is a \<^verbatim>\<open>map[string]*Cell\<close>: the registry holds pointers. The cells
  themselves live in the Go heap, here a list of cell states in which a pointer is an
  index; allocating appends. A \<^verbatim>\<open>*Jail\<close> receiver may be \<^verbatim>\<open>nil\<close> (\<open>None\<close>). The
  type \<open>'c\<close> is the state of one \<^verbatim>\<open>Cell\<close>: its script engine with its globals.
\<close>

record jail_fields =
  cells :: "string \<rightharpoonup> nat"
  baseJSCode :: string

record 'c world =
  jail :: "jail_fields option"
  heap :: "'c list"

text \<open>
  What the registry and \<^verbatim>\<open>Parse\<close> consume from outside jail.go, as parameters:
  \<^verbatim>\<open>newCell(chatID, otto.New())\<close> (an error text, or the state of a cell around an
  engine just made), the cell's \<^verbatim>\<open>Set\<close>, \<^verbatim>\<open>Run\<close> and \<^verbatim>\<open>Get\<close>,
  \<^verbatim>\<open>registerHandlers\<close>, and the asset \<^verbatim>\<open>web3JSCode\<close>. An operation that can change the
  cell returns the state it leaves behind also when it fails; \<^verbatim>\<open>Get\<close> yields the text
  of the value read (\<^verbatim>\<open>res.String()\<close>).
\<close>

record 'c cell_env =
  newCell :: "string \<Rightarrow> string + 'c"
  cell_Set :: "string \<Rightarrow> 'c \<Rightarrow> string option \<times> 'c"
  registerHandlers :: "string \<Rightarrow> 'c \<Rightarrow> string option \<times> 'c"
  cell_Run :: "string \<Rightarrow> 'c \<Rightarrow> string option \<times> 'c"
  cell_Get :: "string \<Rightarrow> 'c \<Rightarrow> string + string"
  web3JSCode :: string

definition ErrInvalidJail :: string where
  "ErrInvalidJail = ''jail environment is not properly initialized''"

definition NewCell :: "'c cell_env \<Rightarrow> string \<Rightarrow> 'c world \<Rightarrow> (string + nat) \<times> 'c world" where
  "NewCell E chatID w =
     (case jail w of
        None \<Rightarrow> (Inl ErrInvalidJail, w)
      | Some j \<Rightarrow>
          (case newCell E chatID of
             Inl err \<Rightarrow> (Inl err, w)
           | Inr c \<Rightarrow>
               (Inr (length (heap w)),
                w\<lparr>jail := Some (j\<lparr>cells := (cells j)(chatID \<mapsto> length (heap w))\<rparr>),
                  heap := heap w @ [c]\<rparr>)))"

definition Cell :: "jail_fields \<Rightarrow> string \<Rightarrow> string + nat" where
  "Cell j chatID =
     (case cells j chatID of
        None \<Rightarrow> Inl (''cell['' @ chatID @ ''] doesn't exist'')
      | Some cell \<Rightarrow> Inr cell)"

text \<open>
  The script \<^verbatim>\<open>Parse\<close> composes around the user's code (lines 122-129): the asset, a
  fixed middle part (a raw Go string, with its newlines, tabs and spaces), the user's
  code and the epilogue that stores the catalog.
\<close>

definition jjs_middle :: string where
  \<open>jjs_middle =
     [CHR 0x0A, CHR 0x09] @ ''var Web3 = require('web3');''
     @ [CHR 0x0A, CHR 0x09] @ ''var web3 = new Web3(jeth);''
     @ [CHR 0x0A, CHR 0x09] @ ''var Bignumber = require("bignumber.js");''
     @ [CHR 0x0A] @ ''        function bn(val){''
     @ [CHR 0x0A] @ ''            return new Bignumber(val);''
     @ [CHR 0x0A] @ ''        }''
     @ [CHR 0x0A, CHR 0x09]\<close>

definition jjs :: "'c cell_env \<Rightarrow> string \<Rightarrow> string" where
  "jjs E js = web3JSCode E @ jjs_middle @ js @ ''; var catalog = JSON.stringify(_status_catalog);''"

text \<open>
  Lines 108-139 of \<^verbatim>\<open>Parse\<close>, as they act on the cell that \<^verbatim>\<open>cell\<close> points to: the
  steps in order, each \<^verbatim>\<open>return makeError(err.Error())\<close> as \<open>Inl\<close> with the error text,
  the final catalog text as \<open>Inr\<close>, and the state the cell is left in either way.
\<close>

definition init_cell :: "'c cell_env \<Rightarrow> jail_fields \<Rightarrow> string \<Rightarrow> string \<Rightarrow> 'c \<Rightarrow> (string + string) \<times> 'c" where
  "init_cell E j chatID js c =
     (case cell_Set E ''jeth'' c of
        (Some err, c1) \<Rightarrow> (Inl err, c1)
      | (None, c1) \<Rightarrow>
          (case registerHandlers E chatID c1 of
             (Some err, c2) \<Rightarrow> (Inl err, c2)
           | (None, c2) \<Rightarrow>
               (case cell_Run E (baseJSCode j @ '';'') c2 of
                  (Some err, c3) \<Rightarrow> (Inl err, c3)
                | (None, c3) \<Rightarrow>
                    (case cell_Run E (jjs E js) c3 of
                       (Some err, c4) \<Rightarrow> (Inl err, c4)
                     | (None, c4) \<Rightarrow>
                         (case cell_Get E ''catalog'' c4 of
                            Inl err \<Rightarrow> (Inl err, c4)
                          | Inr res \<Rightarrow> (Inr res, c4))))))"

text \<open>
  The same lines as they act on the heap: \<^verbatim>\<open>cell\<close> is a pointer, so the cell in the
  heap is the one that changes, and the envelope is made from the outcome. A pointer
  outside the heap would be a runtime panic at its first use.
\<close>

definition Parse_cell ::
  "'c cell_env \<Rightarrow> jail_fields \<Rightarrow> string \<Rightarrow> string \<Rightarrow> nat \<Rightarrow> 'c world \<Rightarrow> (go_panic + string) \<times> 'c world"
where
  "Parse_cell E j chatID js cell w =
     (if cell < length (heap w) then
        (case init_cell E j chatID js (heap w ! cell) of
           (Inl err, c') \<Rightarrow> (Inr (makeError err), w\<lparr>heap := (heap w)[cell := c']\<rparr>)
         | (Inr res, c') \<Rightarrow> (Inr (makeResult res None), w\<lparr>heap := (heap w)[cell := c']\<rparr>))
      else (Inl NilDereference, w))"

text \<open>
  \<^verbatim>\<open>Parse\<close>: the \<^verbatim>\<open>nil\<close> check, the lookup, and on a miss the creation and the
  second lookup, whose error is dropped (lines 95-106); then the initialization. A
  second lookup that fails would leave \<^verbatim>\<open>cell\<close> \<^verbatim>\<open>nil\<close>.
\<close>

definition Parse :: "'c cell_env \<Rightarrow> string \<Rightarrow> string \<Rightarrow> 'c world \<Rightarrow> (go_panic + string) \<times> 'c world" where
  "Parse E chatID js w =
     (case jail w of
        None \<Rightarrow> (Inr (makeError ErrInvalidJail), w)
      | Some j \<Rightarrow>
          (case Cell j chatID of
             Inr cell \<Rightarrow> Parse_cell E j chatID js cell w
           | Inl err \<Rightarrow>
               (case NewCell E chatID w of
                  (Inl mkerr, w1) \<Rightarrow> (Inr (makeError mkerr), w1)
                | (Inr new, w1) \<Rightarrow>
                    (case jail w1 of
                       None \<Rightarrow> (Inl NilDereference, w1)
                     | Some j1 \<Rightarrow>
                         (case Cell j1 chatID of
                            Inl err' \<Rightarrow> (Inl NilDereference, w1)
                          | Inr cell \<Rightarrow> Parse_cell E j1 chatID js cell w1)))))"

section \<open>The script fixture (the script in \<^verbatim>\<open>rxsend_test.go\<close>, lines 3-61)\<close>

text \<open>
  The fixture's globals: \<^verbatim>\<open>status.message_id\<close>, \<^verbatim>\<open>_status_catalog\<close>, \<^verbatim>\<open>context\<close>,
  and \<^verbatim>\<open>callResult\<close>, which \<^verbatim>\<open>call\<close> assigns without declaring it and which is
  therefore a global too (undefined until first assigned). The catalog is a tree of
  objects with functions at its leaves; a function is named by a number and its body is
  a parameter, since it may read and write every global.
\<close>

datatype catalog = Fn nat | Obj "(string \<times> catalog) list"

record globals =
  message_id :: string
  status_catalog :: catalog
  context_var :: gval
  callResult :: gval






section \<open>Reference definitions and test doubles\<close>

subsection \<open>The policy's answers to a sequence of calls\<close>

text \<open>
  The policy asked about every call of a sequence in turn, each call in the state the
  previous one left: the answers, and the state after the last call. These are the
  answers \<^verbatim>\<open>Send\<close> is compared with; they do not stop at a fatal error.
\<close>

fun answers :: "'p policy \<Rightarrow> RPCCall list \<Rightarrow> 'p \<Rightarrow> (exec_error + (string \<times> gval) list) list" where
  "answers ex [] p = []"
| "answers ex (r # rs) p = (case ex r p of (a, p') \<Rightarrow> a # answers ex rs p')"

fun run_policy :: "'p policy \<Rightarrow> RPCCall list \<Rightarrow> 'p \<Rightarrow> 'p" where
  "run_policy ex [] p = p"
| "run_policy ex (r # rs) p = run_policy ex rs (snd (ex r p))"

fun is_fatal :: "exec_error + (string \<times> gval) list \<Rightarrow> bool" where
  "is_fatal (Inl (StopRPCCallError m)) = True"
| "is_fatal (Inl (OtherError m)) = False"
| "is_fatal (Inr resp) = False"

text \<open>
  The array entry that the loop pushes for an answer that is not fatal: the policy's
  response map as it is, or the error response around the pointer \<^verbatim>\<open>&req.ID\<close>.
\<close>

fun entry :: "exec_error + (string \<times> gval) list \<Rightarrow> gval" where
  "entry (Inr resp) = GMap resp"
| "entry (Inl err) = GMap (newErrorResponse (Error err) AddrReqID)"



fun is_exception :: "outcome \<Rightarrow> bool" where
  "is_exception (Thrown m) = True"
| "is_exception (Returned v) = False"
| "is_exception (RuntimePanic p) = False"

subsection \<open>Test doubles for the dispatcher\<close>

text \<open>
  A policy double with call tracking: it answers by a function of the call and records
  every call it is passed.
\<close>

definition recording :: "(RPCCall \<Rightarrow> exec_error + (string \<times> gval) list) \<Rightarrow> RPCCall list policy" where
  "recording f c seen = (f c, seen @ [c])"

definition result_response :: "gval \<Rightarrow> gval \<Rightarrow> (string \<times> gval) list" where
  "result_response ident v = [(''jsonrpc'', GStr ''2.0''), (''id'', ident), (''result'', v)]"

text \<open>A policy that answers with the sum of the call's first two parameters.\<close>

definition echo_sum :: "RPCCall \<Rightarrow> exec_error + (string \<times> gval) list" where
  "echo_sum c =
     (case Params c of
        GInt a # GInt b # _ \<Rightarrow> Inr (result_response (ID c) (GInt (a + b)))
      | _ \<Rightarrow> Inl (OtherError ''two numbers expected''))"

text \<open>
  A policy that fails recoverably on the method \<^verbatim>\<open>bad\<close>, fatally on the method
  \<^verbatim>\<open>stop\<close>, and answers every other call with its method's name.
\<close>

definition by_method :: "RPCCall \<Rightarrow> exec_error + (string \<times> gval) list" where
  "by_method c =
     (if Method c = ''bad'' then Inl (OtherError ''boom'')
      else if Method c = ''stop'' then Inl (StopRPCCallError ''halt'')
      else Inr (result_response (ID c) (GStr (Method c))))"

text \<open>
  A policy that numbers its responses itself, as a backend client with its own request
  counter does: its state is the number of calls so far.
\<close>

definition numbering :: "nat policy" where
  "numbering c n = (Inr (result_response (GInt (int n)) (GStr (Method c))), Suc n)"

text \<open>
  Decoder doubles: a table from payload texts to what \<^verbatim>\<open>json.Unmarshal\<close> makes of
  them; every other text is a decoding error.
\<close>

definition decode_table :: "(string \<times> 'b) list \<Rightarrow> string \<Rightarrow> string + 'b" where
  "decode_table t raw =
     (case map_of t raw of Some v \<Rightarrow> Inr v | None \<Rightarrow> Inl ''unexpected end of JSON input'')"

definition rpc :: "int \<Rightarrow> string \<Rightarrow> gval list \<Rightarrow> RPCCall" where
  "rpc i m ps = \<lparr>ID = GInt i, Method = m, Params = ps\<rparr>"

definition foo_text :: string where
  \<open>foo_text = ''{"method":"foo","params":[1,2],"id":7}''\<close>

definition a_bad_text :: string where
  \<open>a_bad_text = ''[{"method":"a","id":1},{"method":"bad","id":2}]''\<close>

definition bad_ok_text :: string where
  \<open>bad_ok_text = ''[{"method":"bad","id":1},{"method":"ok","id":2}]''\<close>

definition a_stop_b_text :: string where
  \<open>a_stop_b_text = ''[{"method":"a","id":1},{"method":"stop","id":2},{"method":"b","id":3}]''\<close>

definition batches :: "(string \<times> RPCCall list) list" where
  "batches =
     [(a_bad_text, [rpc 1 ''a'' [], rpc 2 ''bad'' []]),
      (bad_ok_text, [rpc 1 ''bad'' [], rpc 2 ''ok'' []]),
      (a_stop_b_text, [rpc 1 ''a'' [], rpc 2 ''stop'' [], rpc 3 ''b'' []])]"

definition singles :: "(string \<times> RPCCall) list" where
  "singles = [(foo_text, rpc 7 ''foo'' [GInt 1, GInt 2])]"

text \<open>
  The environment of the doubles: the script's argument is given by its serialization,
  the decoders are the tables, the array is the language's own, the policy is a
  parameter.
\<close>

definition test_env :: "'p policy \<Rightarrow> (string, 'p) env" where
  "test_env ex =
     \<lparr>JSON_stringify = Inr,
      Unmarshal_calls = decode_table batches,
      Unmarshal_call = decode_table singles,
      Execute = ex,
      new_Array = Inr [],
      Array_push = (\<lambda>resps v. Inr (resps @ [v])),
      Array_Get = (\<lambda>resps k. Inr (if k = ''0'' then (case resps of [] \<Rightarrow> GUndefined | v # _ \<Rightarrow> v)
                                   else GUndefined))\<rparr>"

definition start :: "'p \<Rightarrow> 'p send_state" where
  "start p = \<lparr>policy_state = p, req = None, logged = []\<rparr>"

subsection \<open>Test doubles for the registry and for \<^verbatim>\<open>Parse\<close>\<close>

text \<open>
  A cell double whose state is the list of what was done to its engine, in order. Its
  engine runs the one script \<open>ok\<close>; every other script throws after a part of it has
  run.
\<close>

definition engine_double :: "string \<Rightarrow> string list cell_env" where
  \<open>engine_double ok =
     \<lparr>newCell = (\<lambda>chatID. Inr []),
      cell_Set = (\<lambda>name c. (None, c @ [''set '' @ name])),
      registerHandlers = (\<lambda>chatID c. (None, c @ [''handlers for '' @ chatID])),
      cell_Run = (\<lambda>src c. if src = ok then (None, c @ [''ran '' @ src])
                           else (Some ''SyntaxError'', c @ [''ran a part''])),
      cell_Get = (\<lambda>name c. Inr ''{"commands":{}}''),
      web3JSCode = ''/* web3 */''\<rparr>\<close>

definition empty_world :: "string list world" where
  "empty_world = \<lparr>jail = Some \<lparr>cells = Map.empty, baseJSCode = ''var base''\<rparr>, heap = []\<rparr>"

definition chat_world :: "string list world" where
  "chat_world = \<lparr>jail = Some \<lparr>cells = [''chat'' \<mapsto> 0], baseJSCode = ''var base''\<rparr>,
                  heap = [[''set jeth'', ''old'']]\<rparr>"

subsection \<open>Test doubles for the script fixture\<close>







section \<open>Facts about the loop of \<^verbatim>\<open>Send\<close>\<close>

lemmas tables = test_env_def decode_table_def batches_def singles_def rpc_def
  foo_text_def a_bad_text_def bad_ok_text_def a_stop_b_text_def

lemmas dispatcher_doubles = tables start_def recording_def by_method_def numbering_def
  result_response_def

lemmas send_defs = Send_def observed_def newErrorResponseOtto_def newErrorResponse_def
  bool_text_def Let_def

text \<open>The doubles: their array is the language's own, and the policy double echoes ids.\<close>

lemma standard_Array_test_env: "standard_Array (test_env ex)"
  by (simp add: standard_Array_def test_env_def)


lemma push_standard: "standard_Array E \<Longrightarrow> Array_push E resps v = Inr (resps @ [v])"
  by (simp add: standard_Array_def)



lemma newErrorResponseOtto_nil:
  "newErrorResponseOtto st m GNil
     = GMap [(''jsonrpc'', GStr ''2.0''), (''id'', GNil),
             (''error'', GMap [(''code'', GInt (- 32603)), (''message'', GStr m)])]"
  by (simp add: newErrorResponseOtto_def newErrorResponse_def)

text \<open>
  Without a fatal answer, and with the language's own array, the loop runs to the end:
  it pushes one entry per call, in the order of the calls, leaves the policy in the
  state after the last call, and leaves the loop variable holding the last call.
\<close>

lemma send_loop_no_fatal:
  assumes "standard_Array E"
  shows "\<not> list_ex is_fatal (answers (Execute E) rs (policy_state st)) \<Longrightarrow>
   fst (send_loop E rs acc st) = Inr (acc @ map entry (answers (Execute E) rs (policy_state st)))
   \<and> policy_state (snd (send_loop E rs acc st)) = run_policy (Execute E) rs (policy_state st)
   \<and> req (snd (send_loop E rs acc st)) = (if rs = [] then req st else Some (last rs))"
proof (induction rs arbitrary: acc st)
  case Nil
  then show ?case by simp
next
  case (Cons r rs)
  let ?st1 = "st\<lparr>req := Some r,
                  logged := logged st @ [Info ''execute request'' ''method'' (Method r)]\<rparr>"
  note push = push_standard[OF assms]
  obtain a p' where ex: "Execute E r (policy_state st) = (a, p')"
    by (cases "Execute E r (policy_state st)")
  with Cons.prems have nf: "\<not> is_fatal a"
    and rest: "\<not> list_ex is_fatal (answers (Execute E) rs p')"
    by auto
  show ?case
  proof (cases a)
    case (Inr resp)
    with ex rest Cons.IH[of "?st1\<lparr>policy_state := p'\<rparr>" "acc @ [GMap resp]"]
    show ?thesis by (simp add: Let_def push)
  next
    case (Inl err)
    with nf obtain m where "err = OtherError m" by (cases err) auto
    with Inl ex rest
      Cons.IH[of "?st1\<lparr>policy_state := p',
                       logged := logged ?st1 @ [Info ''request errored'' ''error'' m]\<rparr>"
                 "acc @ [GMap (newErrorResponse m AddrReqID)]"]
    show ?thesis by (simp add: Let_def push)
  qed
qed

text \<open>
  At the first fatal answer the loop leaves \<^verbatim>\<open>Send\<close> with the error response: the
  calls after it change nothing, neither the outcome nor the state.
\<close>

lemma send_loop_stops:
  assumes "standard_Array E"
    and "\<not> list_ex is_fatal (answers (Execute E) xs (policy_state st))"
    and "Execute E c (run_policy (Execute E) xs (policy_state st)) = (Inl (StopRPCCallError m), p')"
  shows "send_loop E (xs @ c # ys) acc st = send_loop E (xs @ [c]) acc st
   \<and> fst (send_loop E (xs @ [c]) acc st)
       = Inl (Returned (GMap [(''jsonrpc'', GStr ''2.0''), (''id'', GNil),
                              (''error'', GMap [(''code'', GInt (- 32603)), (''message'', GStr m)])]))
   \<and> policy_state (snd (send_loop E (xs @ [c]) acc st)) = p'"
  using assms(2,3)
proof (induction xs arbitrary: acc st)
  case Nil
  then show ?case by (simp add: Let_def newErrorResponseOtto_nil)
next
  case (Cons r rs)
  let ?st1 = "st\<lparr>req := Some r,
                  logged := logged st @ [Info ''execute request'' ''method'' (Method r)]\<rparr>"
  note push = push_standard[OF assms(1)]
  obtain a p1 where ex: "Execute E r (policy_state st) = (a, p1)"
    by (cases "Execute E r (policy_state st)")
  with Cons.prems have nf: "\<not> is_fatal a"
    and rest: "\<not> list_ex is_fatal (answers (Execute E) rs p1)"
    and fatal: "Execute E c (run_policy (Execute E) rs p1) = (Inl (StopRPCCallError m), p')"
    by auto
  show ?case
  proof (cases a)
    case (Inr resp)
    with ex rest fatal Cons.IH[of "?st1\<lparr>policy_state := p1\<rparr>" "acc @ [GMap resp]"]
    show ?thesis by (simp add: Let_def push newErrorResponseOtto_nil)
  next
    case (Inl err)
    with nf obtain m' where "err = OtherError m'" by (cases err) auto
    with Inl ex rest fatal
      Cons.IH[of "?st1\<lparr>policy_state := p1,
                       logged := logged ?st1 @ [Info ''request errored'' ''error'' m']\<rparr>"
                 "acc @ [GMap (newErrorResponse m' AddrReqID)]"]
    show ?thesis by (simp add: Let_def push newErrorResponseOtto_nil)
  qed
qed

section \<open>The claims about \<^verbatim>\<open>Send\<close>\<close>




text \<open>
  C2, as the code has it. When the calls \<open>xs\<close> of a batch get no fatal answer and the
  next call \<open>c\<close> gets the fatal answer with the text \<open>m\<close>, \<^verbatim>\<open>Send\<close> returns, as an
  ordinary value, the single error response with a null id, the code -32603 and the
  message \<open>m\<close>: no array, and nothing thrown. The calls \<open>ys\<close> after \<open>c\<close> are never
  passed to the policy: the state \<^verbatim>\<open>Send\<close> leaves is the state the loop leaves on
  \<open>xs\<close> and \<open>c\<close> alone, and the policy is left in the state in which its answer to
  \<open>c\<close> left it.
\<close>

theorem Send_fatal_stops_batch:
  assumes "standard_Array E"
    and "JSON_stringify E arg = Inr raw" and "raw = CHR ''['' # rest"
    and "Unmarshal_calls E raw = Inr (xs @ c # ys)"
    and "\<not> list_ex is_fatal (answers (Execute E) xs (policy_state st))"
    and "Execute E c (run_policy (Execute E) xs (policy_state st)) = (Inl (StopRPCCallError m), p')"
  shows "fst (Send E arg st)
           = Returned (GMap [(''jsonrpc'', GStr ''2.0''), (''id'', GNil),
                             (''error'', GMap [(''code'', GInt (- 32603)), (''message'', GStr m)])])
    \<and> snd (Send E arg st) = snd (send_loop E (xs @ [c]) [] st)
    \<and> policy_state (snd (Send E arg st)) = p'"
proof -
  let ?resp = "GMap [(''jsonrpc'', GStr ''2.0''), (''id'', GNil),
                     (''error'', GMap [(''code'', GInt (- 32603)), (''message'', GStr m)])]"
  from send_loop_stops[OF assms(1,5,6), of ys "[]"]
  have eq: "send_loop E (xs @ c # ys) [] st = send_loop E (xs @ [c]) [] st"
    and out: "fst (send_loop E (xs @ [c]) [] st) = Inl (Returned ?resp)"
    and pol: "policy_state (snd (send_loop E (xs @ [c]) [] st)) = p'"
    by simp_all
  obtain st' where loop: "send_loop E (xs @ [c]) [] st = (Inl (Returned ?resp), st')"
    using out by (cases "send_loop E (xs @ [c]) [] st") simp
  with pol have "policy_state st' = p'" by simp
  with assms(1-4) eq loop show ?thesis
    by (simp add: Send_def standard_Array_def)
qed

text \<open>
  A batch of three calls whose second call is fatal, under the policy double that
  records the calls it is passed: it has seen the first two calls and not the third.
\<close>

theorem Send_fatal_stops_batch_witness:
  "standard_Array (test_env (recording by_method))
   \<and> JSON_stringify (test_env (recording by_method)) a_stop_b_text = Inr a_stop_b_text
   \<and> a_stop_b_text = CHR ''['' # tl a_stop_b_text
   \<and> Unmarshal_calls (test_env (recording by_method)) a_stop_b_text
     = Inr ([rpc 1 ''a'' []] @ rpc 2 ''stop'' [] # [rpc 3 ''b'' []])
   \<and> \<not> list_ex is_fatal (answers (Execute (test_env (recording by_method)))
                                [rpc 1 ''a'' []] (policy_state (start [])))
   \<and> Execute (test_env (recording by_method)) (rpc 2 ''stop'' [])
         (run_policy (Execute (test_env (recording by_method))) [rpc 1 ''a'' []] (policy_state (start [])))
       = (Inl (StopRPCCallError ''halt''), [rpc 1 ''a'' [], rpc 2 ''stop'' []])
   \<and> fst (Send (test_env (recording by_method)) a_stop_b_text (start []))
       = Returned (GMap [(''jsonrpc'', GStr ''2.0''), (''id'', GNil),
                         (''error'', GMap [(''code'', GInt (- 32603)), (''message'', GStr ''halt'')])])
   \<and> policy_state (snd (Send (test_env (recording by_method)) a_stop_b_text (start [])))
       = [rpc 1 ''a'' [], rpc 2 ''stop'' []]"
proof -
  let ?E = "test_env (recording by_method)"
  have std: "standard_Array ?E" by (rule standard_Array_test_env)
  have ser: "JSON_stringify ?E a_stop_b_text = Inr a_stop_b_text" by (simp add: test_env_def)
  have raw: "a_stop_b_text = CHR ''['' # tl a_stop_b_text" by (simp add: a_stop_b_text_def)
  have dec: "Unmarshal_calls ?E a_stop_b_text
               = Inr ([rpc 1 ''a'' []] @ rpc 2 ''stop'' [] # [rpc 3 ''b'' []])"
    by (simp add: tables)
  have nf: "\<not> list_ex is_fatal (answers (Execute ?E) [rpc 1 ''a'' []] (policy_state (start [])))"
    by (simp add: test_env_def recording_def by_method_def rpc_def start_def)
  have fatal: "Execute ?E (rpc 2 ''stop'' [])
                 (run_policy (Execute ?E) [rpc 1 ''a'' []] (policy_state (start [])))
               = (Inl (StopRPCCallError ''halt''), [rpc 1 ''a'' [], rpc 2 ''stop'' []])"
    by (simp add: test_env_def recording_def by_method_def rpc_def start_def)
  note stops = Send_fatal_stops_batch[OF std ser raw dec nf fatal]
  from stops have out: "fst (Send ?E a_stop_b_text (start []))
       = Returned (GMap [(''jsonrpc'', GStr ''2.0''), (''id'', GNil),
                         (''error'', GMap [(''code'', GInt (- 32603)), (''message'', GStr ''halt'')])])"
    by blast
  from stops have pol: "policy_state (snd (Send ?E a_stop_b_text (start [])))
       = [rpc 1 ''a'' [], rpc 2 ''stop'' []]"
    by blast
  show ?thesis using std ser raw dec nf fatal out pol by blast
qed

text \<open>
  C2 as stated fails in one point: on that batch the result of \<^verbatim>\<open>Send\<close> is a value it
  returns, not a script exception.
\<close>

theorem Send_fatal_counterexample:
  "\<not> is_exception (fst (Send (test_env (recording by_method)) a_stop_b_text (start [])))"
  by (simp add: dispatcher_doubles send_defs)

text \<open>
  What the script reads in the array of a batch without a fatal answer: every pointer
  yields the id of the last call of the batch.
\<close>

lemma deref_entry_error:
  "deref (Some c) (entry (Inl err)) = GMap (newErrorResponse (Error err) (ID c))"
  by (simp add: newErrorResponse_def)

lemma Send_batch_observed:
  assumes "standard_Array E"
    and "JSON_stringify E arg = Inr raw" and "raw = CHR ''['' # rest"
    and "Unmarshal_calls E raw = Inr reqs" and "reqs \<noteq> []"
    and "\<not> list_ex is_fatal (answers (Execute E) reqs (policy_state st))"
  shows "observed (Send E arg st)
           = Returned (GList (map (\<lambda>a. deref (Some (last reqs)) (entry a))
                                  (answers (Execute E) reqs (policy_state st))))"
proof -
  from send_loop_no_fatal[OF assms(1,6), of "[]"] assms(5)
  have "fst (send_loop E reqs [] st)
          = Inr (map entry (answers (Execute E) reqs (policy_state st)))"
    and "req (snd (send_loop E reqs [] st)) = Some (last reqs)"
    by simp_all
  then show ?thesis
    using assms(1-4)
    by (cases "send_loop E reqs [] st") (simp add: Send_def standard_Array_def observed_def)
qed

text \<open>
  C3, at the batch \<^verbatim>\<open>[{"method":"bad","id":1},{"method":"ok","id":2}]\<close> whose first
  call fails recoverably. The error response stands at the first position with the code
  -32603 and the error text, and the second call is executed; but the response holds
  the address of the loop variable's \<^verbatim>\<open>ID\<close>, and the loop has since moved on: what the
  script reads as the id of the first entry is 2, the id of the second call.
\<close>

theorem Send_error_id_aliased:
  "observed (Send (test_env (recording by_method)) bad_ok_text (start []))
     = Returned (GList [GMap [(''jsonrpc'', GStr ''2.0''), (''id'', GInt 2),
                              (''error'', GMap [(''code'', GInt (- 32603)),
                                                (''message'', GStr ''boom'')])],
                        GMap [(''jsonrpc'', GStr ''2.0''), (''id'', GInt 2),
                              (''result'', GStr ''ok'')]])"
  by (simp add: dispatcher_doubles send_defs)

text \<open>
  C4. A payload that is not empty is a batch exactly when its first byte is \<^verbatim>\<open>[\<close>. A
  batch is decoded into a sequence of calls, every other payload into one call, and the
  decoded calls are the ones the loop runs on; a batch yields the array, a single call
  the first element of the array. A decoding error ends \<^verbatim>\<open>Send\<close> with a script
  exception, before any call is executed (the state is unchanged), whose message holds
  the raw payload, the batch flag and the decoder's error text.
\<close>

theorem Send_classifies_and_decodes:
  assumes "JSON_stringify E arg = Inr raw" and "raw \<noteq> []"
  shows \<open>(hd raw = CHR ''['' \<longrightarrow>
            (\<forall>err. Unmarshal_calls E raw = Inl err \<longrightarrow>
               Send E arg st
                 = (Thrown (''can't unmarshal '' @ raw @ '' (batch=true): '' @ err), st))
          \<and> (\<forall>reqs. Unmarshal_calls E raw = Inr reqs \<longrightarrow> standard_Array E \<longrightarrow>
               Send E arg st =
                 (case send_loop E reqs [] st of
                    (Inl out, st') \<Rightarrow> (out, st')
                  | (Inr resps, st') \<Rightarrow> (Returned (GList resps), st'))))
       \<and> (hd raw \<noteq> CHR ''['' \<longrightarrow>
            (\<forall>err. Unmarshal_call E raw = Inl err \<longrightarrow>
               Send E arg st
                 = (Thrown (''can't unmarshal '' @ raw @ '' (batch=false): '' @ err), st))
          \<and> (\<forall>c. Unmarshal_call E raw = Inr c \<longrightarrow> standard_Array E \<longrightarrow>
               Send E arg st =
                 (case send_loop E [c] [] st of
                    (Inl out, st') \<Rightarrow> (out, st')
                  | (Inr resps, st') \<Rightarrow>
                      (Returned (case resps of [] \<Rightarrow> GUndefined | v # _ \<Rightarrow> v), st'))))\<close>
proof -
  obtain b rest where raw: "raw = b # rest" using assms(2) by (cases raw) auto
  show ?thesis
    using assms(1) raw
    by (auto simp add: Send_def bool_text_def Let_def standard_Array_def
        split: prod.splits sum.splits)
qed

text \<open>
  Two payloads that do not decode, a batch and a single call, and a batch that does.
\<close>

theorem Send_classifies_and_decodes_witness:
  \<open>JSON_stringify (test_env numbering) ''[oops'' = Inr ''[oops''
   \<and> Unmarshal_calls (test_env numbering) ''[oops'' = Inl ''unexpected end of JSON input''
   \<and> Send (test_env numbering) ''[oops'' (start 0)
     = (Thrown ''can't unmarshal [oops (batch=true): unexpected end of JSON input'', start 0)
   \<and> JSON_stringify (test_env numbering) ''{oops'' = Inr ''{oops''
   \<and> Unmarshal_call (test_env numbering) ''{oops'' = Inl ''unexpected end of JSON input''
   \<and> Send (test_env numbering) ''{oops'' (start 0)
     = (Thrown ''can't unmarshal {oops (batch=false): unexpected end of JSON input'', start 0)
   \<and> Unmarshal_calls (test_env numbering) a_bad_text = Inr [rpc 1 ''a'' [], rpc 2 ''bad'' []]
   \<and> standard_Array (test_env numbering)
   \<and> Send (test_env numbering) a_bad_text (start 0)
     = (case send_loop (test_env numbering) [rpc 1 ''a'' [], rpc 2 ''bad'' []] [] (start 0) of
          (Inl out, st') \<Rightarrow> (out, st')
        | (Inr resps, st') \<Rightarrow> (Returned (GList resps), st'))\<close>
proof -
  let ?E = "test_env numbering"
  have ser: "JSON_stringify ?E raw = Inr raw" for raw by (simp add: test_env_def)
  have b: "Unmarshal_calls ?E ''[oops'' = Inl ''unexpected end of JSON input''"
    and s: "Unmarshal_call ?E ''{oops'' = Inl ''unexpected end of JSON input''"
    and d: "Unmarshal_calls ?E a_bad_text = Inr [rpc 1 ''a'' [], rpc 2 ''bad'' []]"
    by (simp_all add: tables)
  have std: "standard_Array ?E" by (rule standard_Array_test_env)
  have hd: "hd a_bad_text = CHR ''[''" "a_bad_text \<noteq> []" by (simp_all add: a_bad_text_def)
  from Send_classifies_and_decodes[OF ser, of "''[oops''" "start 0"]
    Send_classifies_and_decodes[OF ser, of "''{oops''" "start 0"]
    Send_classifies_and_decodes[OF ser, of a_bad_text "start 0"]
  show ?thesis using ser b s d std hd by simp
qed

text \<open>
  C5. For a payload that does not start with \<^verbatim>\<open>[\<close> and decodes to the call \<open>c\<close>,
  \<^verbatim>\<open>Send\<close> returns the response object for \<open>c\<close> itself, whatever the policy answers:
  its response map, or the error response; never an array.
\<close>

theorem Send_single_returns_object:
  assumes "standard_Array E"
    and "JSON_stringify E arg = Inr raw" and "raw \<noteq> []" and "hd raw \<noteq> CHR ''[''"
    and "Unmarshal_call E raw = Inr c"
  shows "fst (Send E arg st)
           = Returned (case fst (Execute E c (policy_state st)) of
                         Inr resp \<Rightarrow> GMap resp
                       | Inl (StopRPCCallError m) \<Rightarrow> GMap (newErrorResponse m GNil)
                       | Inl (OtherError m) \<Rightarrow> GMap (newErrorResponse m AddrReqID))
    \<and> (\<forall>vs. fst (Send E arg st) \<noteq> Returned (GList vs))"
proof -
  obtain b rest where raw: "raw = b # rest" using assms(3) by (cases raw) auto
  obtain a p' where ex: "Execute E c (policy_state st) = (a, p')"
    by (cases "Execute E c (policy_state st)")
  show ?thesis
    using assms(1,2,4,5) raw ex
    by (auto simp add: Send_def Let_def newErrorResponseOtto_nil newErrorResponse_def
        standard_Array_def split: sum.splits exec_error.splits)
qed

text \<open>
  The request \<^verbatim>\<open>{"method":"foo","params":[1,2],"id":7}\<close> under a policy that answers
  with the sum of the two parameters.
\<close>

theorem Send_single_returns_object_witness:
  "standard_Array (test_env (recording echo_sum))
   \<and> JSON_stringify (test_env (recording echo_sum)) foo_text = Inr foo_text
   \<and> foo_text \<noteq> [] \<and> hd foo_text \<noteq> CHR ''[''
   \<and> Unmarshal_call (test_env (recording echo_sum)) foo_text = Inr (rpc 7 ''foo'' [GInt 1, GInt 2])
   \<and> fst (Send (test_env (recording echo_sum)) foo_text (start []))
       = Returned (GMap [(''jsonrpc'', GStr ''2.0''), (''id'', GInt 7), (''result'', GInt 3)])"
proof -
  let ?E = "test_env (recording echo_sum)"
  have std: "standard_Array ?E" by (rule standard_Array_test_env)
  have ser: "JSON_stringify ?E foo_text = Inr foo_text" by (simp add: test_env_def)
  have raw: "foo_text \<noteq> []" "hd foo_text \<noteq> CHR ''[''" by (simp_all add: foo_text_def)
  have dec: "Unmarshal_call ?E foo_text = Inr (rpc 7 ''foo'' [GInt 1, GInt 2])"
    by (simp add: tables)
  have ans: "fst (Execute ?E (rpc 7 ''foo'' [GInt 1, GInt 2]) (policy_state (start [])))
               = Inr [(''jsonrpc'', GStr ''2.0''), (''id'', GInt 7), (''result'', GInt 3)]"
    by (simp add: test_env_def recording_def echo_sum_def rpc_def result_response_def)
  from Send_single_returns_object[OF std ser raw dec, of "start []"] ans
  show ?thesis using std ser raw dec by simp
qed

text \<open>
  C9. When the engine serializes the argument to the empty text, \<^verbatim>\<open>Send\<close> ends in the
  runtime panic of an index out of range at \<^verbatim>\<open>rawReq[0]\<close>: no script exception is
  thrown, and no call is executed.
\<close>

theorem Send_empty_payload_panics:
  assumes "JSON_stringify E arg = Inr []"
  shows "Send E arg st = (RuntimePanic IndexOutOfRange, st)
    \<and> \<not> is_exception (fst (Send E arg st))"
  using assms by (simp add: Send_def)

text \<open>The double's engine serializes the empty text to itself.\<close>

theorem Send_empty_payload_panics_witness:
  "JSON_stringify (test_env numbering) [] = Inr []
   \<and> Send (test_env numbering) [] (start 0) = (RuntimePanic IndexOutOfRange, start 0)"
proof -
  have ser: "JSON_stringify (test_env numbering) [] = Inr []" by (simp add: test_env_def)
  from Send_empty_payload_panics[OF ser, of "start 0"] ser show ?thesis by simp
qed

section \<open>The claim about the envelopes\<close>



section \<open>The claims about the registry and \<^verbatim>\<open>Parse\<close>\<close>

lemma init_cell_cells: "init_cell E (j\<lparr>cells := m\<rparr>) chatID js c = init_cell E j chatID js c"
  by (simp add: init_cell_def split: prod.splits option.splits sum.splits)

text \<open>
  The steps of the initialization that can fail, and the state each failure leaves:
  installing the host call surface, registering the handlers, running the bootstrap
  code, running the composed script, and reading the catalog.
\<close>

lemma init_cell_Set_fails:
  "cell_Set E ''jeth'' c = (Some err, c1) \<Longrightarrow> init_cell E j chatID js c = (Inl err, c1)"
  by (simp add: init_cell_def)

lemma init_cell_registerHandlers_fails:
  "cell_Set E ''jeth'' c = (None, c1) \<Longrightarrow> registerHandlers E chatID c1 = (Some err, c2) \<Longrightarrow>
   init_cell E j chatID js c = (Inl err, c2)"
  by (simp add: init_cell_def)

lemma init_cell_bootstrap_fails:
  "cell_Set E ''jeth'' c = (None, c1) \<Longrightarrow> registerHandlers E chatID c1 = (None, c2) \<Longrightarrow>
   cell_Run E (baseJSCode j @ '';'') c2 = (Some err, c3) \<Longrightarrow>
   init_cell E j chatID js c = (Inl err, c3)"
  by (simp add: init_cell_def)

lemma init_cell_script_fails:
  "cell_Set E ''jeth'' c = (None, c1) \<Longrightarrow> registerHandlers E chatID c1 = (None, c2) \<Longrightarrow>
   cell_Run E (baseJSCode j @ '';'') c2 = (None, c3) \<Longrightarrow>
   cell_Run E (jjs E js) c3 = (Some err, c4) \<Longrightarrow>
   init_cell E j chatID js c = (Inl err, c4)"
  by (simp add: init_cell_def)

lemma init_cell_Get_fails:
  "cell_Set E ''jeth'' c = (None, c1) \<Longrightarrow> registerHandlers E chatID c1 = (None, c2) \<Longrightarrow>
   cell_Run E (baseJSCode j @ '';'') c2 = (None, c3) \<Longrightarrow>
   cell_Run E (jjs E js) c3 = (None, c4) \<Longrightarrow> cell_Get E ''catalog'' c4 = Inl err \<Longrightarrow>
   init_cell E j chatID js c = (Inl err, c4)"
  by (simp add: init_cell_def)

text \<open>
  C7. Let the initialization of a cell that starts in the state \<open>c0\<close> fail with the
  error \<open>err\<close> and leave the cell in the state \<open>c'\<close>. Then \<^verbatim>\<open>Parse\<close> returns the error
  envelope of \<open>err\<close>, and the cell stays registered in the state \<open>c'\<close>: when
  \<^verbatim>\<open>Parse\<close> created the cell (no cell was registered for the chat and \<^verbatim>\<open>newCell\<close> made
  one in the state \<open>c0\<close>), the registry maps the chat to the new cell, which is in the
  state \<open>c'\<close>; when a cell was registered already, in the state \<open>c0\<close>, the registry is
  unchanged and that cell is in the state \<open>c'\<close>. Nothing is removed and nothing is
  restored.
\<close>

theorem Parse_failure_keeps_cell:
  assumes "jail w = Some j" and "init_cell E j chatID js c0 = (Inl err, c')"
  shows "(cells j chatID = None \<longrightarrow> newCell E chatID = Inr c0 \<longrightarrow>
            Parse E chatID js w
              = (Inr (makeError err),
                 w\<lparr>jail := Some (j\<lparr>cells := (cells j)(chatID \<mapsto> length (heap w))\<rparr>),
                   heap := heap w @ [c']\<rparr>))
       \<and> (\<forall>a. cells j chatID = Some a \<longrightarrow> a < length (heap w) \<longrightarrow> heap w ! a = c0 \<longrightarrow>
            Parse E chatID js w = (Inr (makeError err), w\<lparr>heap := (heap w)[a := c']\<rparr>))"
  using assms
  by (auto simp add: Parse_def Parse_cell_def Cell_def NewCell_def init_cell_cells nth_append)

text \<open>
  A first \<^verbatim>\<open>Parse\<close> for a chat whose user script throws after a part of it has run:
  the error envelope comes back, the chat is registered, and its cell holds everything
  that was done to it, the part of the failed script included.
\<close>

theorem Parse_failure_keeps_cell_witness:
  \<open>jail empty_world = Some \<lparr>cells = Map.empty, baseJSCode = ''var base''\<rparr>
   \<and> cells \<lparr>cells = Map.empty, baseJSCode = ''var base''\<rparr> ''chat'' = None
   \<and> newCell (engine_double ''var base;'') ''chat'' = Inr []
   \<and> init_cell (engine_double ''var base;'') \<lparr>cells = Map.empty, baseJSCode = ''var base''\<rparr>
         ''chat'' ''x'' []
       = (Inl ''SyntaxError'', [''set jeth'', ''handlers for chat'', ''ran var base;'', ''ran a part''])
   \<and> fst (Parse (engine_double ''var base;'') ''chat'' ''x'' empty_world)
       = Inr ''{"error":"SyntaxError"}''
   \<and> map_option (\<lambda>j. cells j ''chat'')
         (jail (snd (Parse (engine_double ''var base;'') ''chat'' ''x'' empty_world)))
       = Some (Some 0)
   \<and> heap (snd (Parse (engine_double ''var base;'') ''chat'' ''x'' empty_world))
       = [[''set jeth'', ''handlers for chat'', ''ran var base;'', ''ran a part'']]\<close>
proof -
  let ?E = "engine_double ''var base;''"
  let ?j = "\<lparr>cells = Map.empty, baseJSCode = ''var base''\<rparr>"
  let ?c' = "[''set jeth'', ''handlers for chat'', ''ran var base;'', ''ran a part'']"
  have j: "jail empty_world = Some ?j" by (simp add: empty_world_def)
  have none: "cells ?j ''chat'' = None" by simp
  have new: "newCell ?E ''chat'' = Inr []" by (simp add: engine_double_def)
  have init: "init_cell ?E ?j ''chat'' ''x'' [] = (Inl ''SyntaxError'', ?c')"
    by (simp add: init_cell_def engine_double_def jjs_def jjs_middle_def)
  from Parse_failure_keeps_cell[OF j init] none new
  have "Parse ?E ''chat'' ''x'' empty_world
          = (Inr (makeError ''SyntaxError''),
             empty_world\<lparr>jail := Some (?j\<lparr>cells := (cells ?j)(''chat'' \<mapsto> length (heap empty_world))\<rparr>),
                          heap := heap empty_world @ [?c']\<rparr>)"
    by blast
  then show ?thesis using j none new init
    by (simp add: empty_world_def makeError_def json_string_def json_escape_byte_def)
qed

text \<open>
  C10. On a jail that is not \<^verbatim>\<open>nil\<close>, whenever \<^verbatim>\<open>newCell\<close> makes a cell,
  \<^verbatim>\<open>NewCell\<close> returns that cell, at an address no cell had before, and registers it
  under the chat id, whether or not a cell was registered there: the registry is
  overwritten at that key only. It returns no error and never the cell that was
  registered: that cell stays in the heap as it was, and the registry no longer points
  to it.
\<close>

theorem NewCell_replaces:
  assumes "jail w = Some j" and "newCell E chatID = Inr c"
  shows "fst (NewCell E chatID w) = Inr (length (heap w))
    \<and> jail (snd (NewCell E chatID w)) = Some (j\<lparr>cells := (cells j)(chatID \<mapsto> length (heap w))\<rparr>)
    \<and> heap (snd (NewCell E chatID w)) = heap w @ [c]
    \<and> (\<forall>old. cells j chatID = Some old \<longrightarrow> old < length (heap w) \<longrightarrow>
          fst (NewCell E chatID w) \<noteq> Inr old
          \<and> heap (snd (NewCell E chatID w)) ! old = heap w ! old)"
  using assms by (auto simp add: NewCell_def nth_append)

text \<open>
  A chat that has a cell at address 0: \<^verbatim>\<open>NewCell\<close> returns the address 1, maps the
  chat to it, and the new cell is in its first state; the old cell is still in the heap.
\<close>

theorem NewCell_replaces_witness:
  "jail chat_world = Some \<lparr>cells = [''chat'' \<mapsto> 0], baseJSCode = ''var base''\<rparr>
   \<and> newCell (engine_double ''var base;'') ''chat'' = Inr []
   \<and> fst (NewCell (engine_double ''var base;'') ''chat'' chat_world) = Inr 1
   \<and> map_option (\<lambda>j. cells j ''chat'')
         (jail (snd (NewCell (engine_double ''var base;'') ''chat'' chat_world)))
       = Some (Some 1)
   \<and> heap (snd (NewCell (engine_double ''var base;'') ''chat'' chat_world))
       = [[''set jeth'', ''old''], []]"
proof -
  let ?E = "engine_double ''var base;''"
  have j: "jail chat_world = Some \<lparr>cells = [''chat'' \<mapsto> 0], baseJSCode = ''var base''\<rparr>"
    by (simp add: chat_world_def)
  have new: "newCell ?E ''chat'' = Inr []" by (simp add: engine_double_def)
  have h: "heap chat_world = [[''set jeth'', ''old'']]" by (simp add: chat_world_def)
  from NewCell_replaces[OF j new] h show ?thesis using j new by simp
qed

section \<open>The claim about the script fixture\<close>





end
